theory Spec2Isabelle
  imports Complex_Main "HOL-Library.AList"
begin

section \<open>Data model\<close>

text \<open>
  The two notebooks (\<^verbatim>\<open>DeepEval.ipynb\<close> and the Opik notebook) exchange Python values
  that travel as JSON: \<^verbatim>\<open>None\<close>, numbers, strings, booleans, lists and dicts with string
  keys. The number type is a parameter: the scores are Python floats, and nothing below
  computes with them. A dict is an association list in insertion order.
\<close>

datatype 'n json =
    JNull
  | JBool bool
  | JNum 'n
  | JStr string
  | JList "'n json list"
  | JDict "(string \<times> 'n json) list"

text \<open>\<^verbatim>\<open>d[k]\<close> on a JSON value, as an option: \<open>None\<close> where Python raises.\<close>

fun dict_get :: "'n json \<Rightarrow> string \<Rightarrow> 'n json option" where
  "dict_get (JDict kvs) k = map_of (rev kvs) k"
| "dict_get _ k = None"

text \<open>The exceptions that can leave the code: a failure inside \<^verbatim>\<open>requests\<close>, a body
  that \<^verbatim>\<open>response.json()\<close> cannot decode, and a failure inside a metric.\<close>

datatype py_error = RequestException | JSONDecodeError | MetricError

text \<open>What \<^verbatim>\<open>requests.post\<close> and \<^verbatim>\<open>requests.get\<close> are given.\<close>

record 'n request =
  verb :: string
  url :: string
  headers :: "(string \<times> string) list"
  json_payload :: "'n json option"

text \<open>The response object: \<^verbatim>\<open>response.status_code\<close>, \<^verbatim>\<open>response.text\<close> and the outcome
  of calling \<^verbatim>\<open>response.json()\<close>.\<close>

record 'n response =
  status_code :: int
  body_text :: string
  json_result :: "py_error + 'n json"

text \<open>One argument of a \<^verbatim>\<open>print\<close> call: a string, or a value printed by its \<^verbatim>\<open>repr\<close>.\<close>

datatype 'n printed = Str string | Repr "'n json"

text \<open>What a call does that its caller can observe: the request issued, the \<^verbatim>\<open>print\<close>
  calls (one list of arguments each), and the value returned or the exception raised.
  Python's \<^verbatim>\<open>None\<close> is \<open>JNull\<close>.\<close>

record 'n outcome =
  sent :: "'n request"
  stdout :: "'n printed list list"
  returned :: "py_error + 'n json"

section \<open>Formatting\<close>

text \<open>\<^verbatim>\<open>str(i)\<close> for an int, as the f-strings apply it to \<^verbatim>\<open>response.status_code\<close>.\<close>

fun digits :: "nat \<Rightarrow> string" where
  "digits n =
     (if n < 10 then [''0123456789'' ! n]
      else digits (n div 10) @ [''0123456789'' ! (n mod 10)])"

declare digits.simps [simp del]

definition str_int :: "int \<Rightarrow> string" where
  "str_int i = (if i < 0 then CHR ''-'' # digits (nat (- i)) else digits (nat i))"

section \<open>Metrics reporting client\<close>

text \<open>\<^verbatim>\<open>post_metrics_to_TRACE_Metric_API(metric_results, auth_token, user_id)\<close> of
  \<^verbatim>\<open>DeepEval.ipynb\<close>. The network is the parameter \<open>post\<close>, which stands for
  \<^verbatim>\<open>requests.post\<close>: it returns a response or raises.\<close>

definition post_metrics_to_TRACE_Metric_API ::
  "'n json \<Rightarrow> string \<Rightarrow> string \<Rightarrow> ('n request \<Rightarrow> py_error + 'n response) \<Rightarrow> 'n outcome" where
  "post_metrics_to_TRACE_Metric_API metric_results auth_token user_id post =
     (let BASE_URL = ''https://api.cognitiveview.com'';
          url = BASE_URL @ ''/cv/v1/metrics'';
          headers =
            [(''Authorization'', auth_token),
             (''Content-Type'', ''application/json''),
             (''X-User-Id'', user_id)];
          payload = JDict
            [(''metric_metadata'', JDict
               [(''application_name'', JStr ''chat-application''),
                (''version'', JStr ''1.0.0''),
                (''resource_name'', JStr ''chat-completion''),
                (''resource_id'', JStr ''R-756''),
                (''url'', JStr ''https://api.example.com/chat''),
                (''provider'', JStr ''deepeval''),
                (''use_case'', JStr ''transportation'')]),
             (''metric_data'', JDict
               [(''resource_id'', JStr ''res_123456''),
                (''resource_name'', JStr ''chat-completion''),
                (''deepeval'', metric_results)])];
          req = \<lparr>verb = ''POST'', url = url, headers = headers, json_payload = Some payload\<rparr>
      in case post req of
           Inl e \<Rightarrow> \<lparr>sent = req, stdout = [], returned = Inl e\<rparr>
         | Inr response \<Rightarrow>
             (let line1 = [Str (''Status Code: '' @ str_int (status_code response))]
              in case json_result response of
                   Inr j \<Rightarrow>
                     \<lparr>sent = req, stdout = [line1, [Str ''Response JSON:'', Repr j]],
                      returned = Inr j\<rparr>
                 | Inl e \<Rightarrow>
                     \<lparr>sent = req,
                      stdout = [line1, [Str ''Response Text:'', Str (body_text response)]],
                      returned = Inr JNull\<rparr>))"

text \<open>The posting cell of the Opik notebook: straight-line code at module level,
  with the token and the user id fixed in the cell and no \<^verbatim>\<open>try\<close> around
  \<^verbatim>\<open>response.json()\<close>. A cell returns nothing: \<open>returned\<close> is \<open>Inr JNull\<close> when the
  cell runs to its end.\<close>

definition AUTH_TOKEN :: string where
  "AUTH_TOKEN = ''Your-Authorization-Token-Here''"

definition opik_post_cell ::
  "'n json \<Rightarrow> ('n request \<Rightarrow> py_error + 'n response) \<Rightarrow> 'n outcome" where
  "opik_post_cell metric_results post =
     (let BASE_URL = ''https://api.cognitiveview.com'';
          url = BASE_URL @ ''/cv/v1/metrics'';
          headers =
            [(''Authorization'', AUTH_TOKEN),
             (''Content-Type'', ''application/json''),
             (''X-User-Id'', ''C473421_T181751'')];
          payload = JDict
            [(''metric_metadata'', JDict
               [(''application_name'', JStr ''chat-application''),
                (''version'', JStr ''1.0.0''),
                (''resource_name'', JStr ''chat-completion''),
                (''resource_id'', JStr ''R-756''),
                (''url'', JStr ''https://api.example.com/chat''),
                (''provider'', JStr ''opik''),
                (''use_case'', JStr ''transportation'')]),
             (''metric_data'', JDict
               [(''resource_id'', JStr ''res_123456''),
                (''resource_name'', JStr ''chat-completion''),
                (''opik'', metric_results)])];
          req = \<lparr>verb = ''POST'', url = url, headers = headers, json_payload = Some payload\<rparr>
      in case post req of
           Inl e \<Rightarrow> \<lparr>sent = req, stdout = [], returned = Inl e\<rparr>
         | Inr response \<Rightarrow>
             (let line1 = [Str (''Status Code: '' @ str_int (status_code response))]
              in case json_result response of
                   Inr j \<Rightarrow>
                     \<lparr>sent = req, stdout = [line1, [Str ''Response JSON:'', Repr j]],
                      returned = Inr JNull\<rparr>
                 | Inl e \<Rightarrow> \<lparr>sent = req, stdout = [line1], returned = Inl e\<rparr>))"

text \<open>\<^verbatim>\<open>fetch_report_result(report_id, auth_token, user_id)\<close>, the same in both notebooks.
  The parameter \<open>get\<close> stands for \<^verbatim>\<open>requests.get\<close>.\<close>

definition fetch_report_result ::
  "string \<Rightarrow> string \<Rightarrow> string \<Rightarrow> ('n request \<Rightarrow> py_error + 'n response) \<Rightarrow> 'n outcome" where
  "fetch_report_result report_id auth_token user_id get =
     (let base_url = ''https://api.cognitiveview.com'';
          endpoint = ''/cv/v1/metrics/'' @ report_id;
          url = base_url @ endpoint;
          headers =
            [(''Authorization'', auth_token),
             (''Content-Type'', ''application/json''),
             (''X-User-Id'', user_id)];
          req = \<lparr>verb = ''GET'', url = url, headers = headers, json_payload = None\<rparr>
      in case get req of
           Inl e \<Rightarrow> \<lparr>sent = req, stdout = [], returned = Inl e\<rparr>
         | Inr response \<Rightarrow>
             if status_code response = 200 then
               (case json_result response of
                  Inr j \<Rightarrow> \<lparr>sent = req, stdout = [], returned = Inr j\<rparr>
                | Inl e \<Rightarrow> \<lparr>sent = req, stdout = [], returned = Inl e\<rparr>)
             else
               \<lparr>sent = req,
                stdout = [[Str (''Failed to fetch report. Status code: ''
                                 @ str_int (status_code response))]],
                returned = Inr JNull\<rparr>)"

text \<open>A Python dict literal and \<^verbatim>\<open>d[k]\<close> on a header dict: the last binding of a key wins.\<close>

definition header :: "'n request \<Rightarrow> string \<Rightarrow> string option" where
  "header req k = map_of (rev (headers req)) k"

section \<open>The specification's wording of the payload and of the raw response\<close>

text \<open>The record of section 3 of the specification (\<open>ReportMetadata\<close>): seven strings that
  the specification has the caller supply. The source has no such argument; the record and
  the two functions below follow the specification's words and are compared with what the
  code sends.\<close>

record ReportMetadata =
  md_application_name :: string
  md_version :: string
  md_resource_name :: string
  md_resource_id :: string
  md_url :: string
  md_provider :: string
  md_use_case :: string

definition spec_metric_metadata :: "ReportMetadata \<Rightarrow> 'n json" where
  "spec_metric_metadata R = JDict
     [(''application_name'', JStr (md_application_name R)),
      (''version'', JStr (md_version R)),
      (''resource_name'', JStr (md_resource_name R)),
      (''resource_id'', JStr (md_resource_id R)),
      (''url'', JStr (md_url R)),
      (''provider'', JStr (md_provider R)),
      (''use_case'', JStr (md_use_case R))]"

definition spec_metric_data :: "string \<Rightarrow> string \<Rightarrow> string \<Rightarrow> 'n json \<Rightarrow> 'n json" where
  "spec_metric_data r n p M = JDict [(''resource_id'', JStr r), (''resource_name'', JStr n), (p, M)]"

text \<open>The \<open>RawResponse\<close> of section 4.2 of the specification: the status code together with
  the parsed body, or with the raw text where the body is not JSON.\<close>

definition spec_raw_response :: "'n response \<Rightarrow> int \<times> (string + 'n json)" where
  "spec_raw_response r =
     (status_code r, case json_result r of Inr j \<Rightarrow> Inr j | Inl e \<Rightarrow> Inl (body_text r))"

text \<open>One top-level entry of the JSON document a call has sent.\<close>

definition payload_part :: "'n outcome \<Rightarrow> string \<Rightarrow> 'n json option" where
  "payload_part out k =
     (case json_payload (sent out) of None \<Rightarrow> None | Some p \<Rightarrow> dict_get p k)"



section \<open>Score collector\<close>

text \<open>A metric object of an evaluation library, as far as the loops look at it:
  \<^verbatim>\<open>m.__class__.__name__\<close>, the classes \<^verbatim>\<open>C\<close> for which \<^verbatim>\<open>isinstance(m, C)\<close> holds, and the
  call that scores an input, which returns the score or raises. For Opik the call is
  \<^verbatim>\<open>m.score(output=output, reference=reference).value\<close>; for DeepEval it is
  \<^verbatim>\<open>m.measure(tc)\<close> followed by reading \<^verbatim>\<open>m.score\<close>.\<close>

record ('i, 'v) metric =
  class_name :: string
  instance_of :: "string list"
  evaluate :: "'i \<Rightarrow> py_error + 'v"

definition isinstance :: "('i, 'v) metric \<Rightarrow> string \<Rightarrow> bool" where
  "isinstance m c = (c \<in> set (instance_of m))"

text \<open>The loop of \<^verbatim>\<open>DeepEval.ipynb\<close>:
  \<^verbatim>\<open>for m in metrics: m.measure(tc); metric_results[m.__class__.__name__] = m.score\<close>.
  The first component of the result lists the metrics that were called, in the order of
  the calls; the second is the dict at the end of the loop, or the exception that ended
  it. \<^verbatim>\<open>d[k] = v\<close> on a dict is \<open>AList.update\<close>: a known key keeps its place and takes
  the new value, a new key goes to the end.\<close>

fun deepeval_loop ::
  "('i, 'v) metric list \<Rightarrow> 'i \<Rightarrow> (string \<times> 'v) list
     \<Rightarrow> ('i, 'v) metric list \<times> (py_error + (string \<times> 'v) list)" where
  "deepeval_loop [] tc metric_results = ([], Inr metric_results)"
| "deepeval_loop (m # ms) tc metric_results =
     (case evaluate m tc of
        Inl e \<Rightarrow> ([m], Inl e)
      | Inr score \<Rightarrow>
          (case deepeval_loop ms tc (AList.update (class_name m) score metric_results) of
             (calls, res) \<Rightarrow> (m # calls, res)))"

definition deepeval_collect ::
  "('i, 'v) metric list \<Rightarrow> 'i \<Rightarrow> ('i, 'v) metric list \<times> (py_error + (string \<times> 'v) list)" where
  "deepeval_collect metrics tc = deepeval_loop metrics tc []"

text \<open>The loop of the Opik notebook, with its \<^verbatim>\<open>isinstance\<close> chain and its
  \<^verbatim>\<open>else: continue\<close>.\<close>

fun opik_loop ::
  "(string \<times> string, 'v) metric list \<Rightarrow> string \<Rightarrow> string \<Rightarrow> (string \<times> 'v) list
     \<Rightarrow> (string \<times> string, 'v) metric list \<times> (py_error + (string \<times> 'v) list)" where
  "opik_loop [] output reference metric_results = ([], Inr metric_results)"
| "opik_loop (m # ms) output reference metric_results =
     (if isinstance m ''Equals'' then
        (case evaluate m (output, reference) of
           Inl e \<Rightarrow> ([m], Inl e)
         | Inr v \<Rightarrow>
             (case opik_loop ms output reference
                     (AList.update (class_name m) v metric_results) of
                (calls, res) \<Rightarrow> (m # calls, res)))
      else if isinstance m ''Moderation'' then
        (case evaluate m (output, reference) of
           Inl e \<Rightarrow> ([m], Inl e)
         | Inr v \<Rightarrow>
             (case opik_loop ms output reference
                     (AList.update (class_name m) v metric_results) of
                (calls, res) \<Rightarrow> (m # calls, res)))
      else opik_loop ms output reference metric_results)"

definition opik_collect ::
  "(string \<times> string, 'v) metric list \<Rightarrow> string \<Rightarrow> string
     \<Rightarrow> (string \<times> string, 'v) metric list \<times> (py_error + (string \<times> 'v) list)" where
  "opik_collect metrics output reference = opik_loop metrics output reference []"

text \<open>The metrics the Opik loop does not pass over.\<close>

definition opik_scored :: "('i, 'v) metric \<Rightarrow> bool" where
  "opik_scored m = (isinstance m ''Equals'' \<or> isinstance m ''Moderation'')"

text \<open>One write of a loop: the score of \<open>m\<close> on the input goes under the class name
  of \<open>m\<close>.\<close>

definition record_score ::
  "'i \<Rightarrow> (string \<times> 'v) list \<Rightarrow> ('i, 'v) metric \<Rightarrow> (string \<times> 'v) list" where
  "record_score inp d m = AList.update (class_name m) (projr (evaluate m inp)) d"

section \<open>The request sent\<close>

lemma sent_post:
  "sent (post_metrics_to_TRACE_Metric_API M t u post) =
     \<lparr>verb = ''POST'', url = ''https://api.cognitiveview.com/cv/v1/metrics'',
      headers = [(''Authorization'', t), (''Content-Type'', ''application/json''),
                 (''X-User-Id'', u)],
      json_payload = Some (JDict
        [(''metric_metadata'', JDict
           [(''application_name'', JStr ''chat-application''),
            (''version'', JStr ''1.0.0''),
            (''resource_name'', JStr ''chat-completion''),
            (''resource_id'', JStr ''R-756''),
            (''url'', JStr ''https://api.example.com/chat''),
            (''provider'', JStr ''deepeval''),
            (''use_case'', JStr ''transportation'')]),
         (''metric_data'', JDict
           [(''resource_id'', JStr ''res_123456''),
            (''resource_name'', JStr ''chat-completion''),
            (''deepeval'', M)])])\<rparr>"
  by (simp add: post_metrics_to_TRACE_Metric_API_def Let_def split: sum.split)

lemma sent_opik:
  "sent (opik_post_cell M post) =
     \<lparr>verb = ''POST'', url = ''https://api.cognitiveview.com/cv/v1/metrics'',
      headers = [(''Authorization'', AUTH_TOKEN), (''Content-Type'', ''application/json''),
                 (''X-User-Id'', ''C473421_T181751'')],
      json_payload = Some (JDict
        [(''metric_metadata'', JDict
           [(''application_name'', JStr ''chat-application''),
            (''version'', JStr ''1.0.0''),
            (''resource_name'', JStr ''chat-completion''),
            (''resource_id'', JStr ''R-756''),
            (''url'', JStr ''https://api.example.com/chat''),
            (''provider'', JStr ''opik''),
            (''use_case'', JStr ''transportation'')]),
         (''metric_data'', JDict
           [(''resource_id'', JStr ''res_123456''),
            (''resource_name'', JStr ''chat-completion''),
            (''opik'', M)])])\<rparr>"
  by (simp add: opik_post_cell_def Let_def split: sum.split)

lemma sent_fetch:
  "sent (fetch_report_result rid t u get) =
     \<lparr>verb = ''GET'', url = ''https://api.cognitiveview.com/cv/v1/metrics/'' @ rid,
      headers = [(''Authorization'', t), (''Content-Type'', ''application/json''),
                 (''X-User-Id'', u)],
      json_payload = None\<rparr>"
  by (simp add: fetch_report_result_def Let_def split: sum.split)

text \<open>
  Claim C6. Whatever token string the caller passes, the request issued by the posting
  function and the request issued by the fetching function both carry an
  \<^verbatim>\<open>Authorization\<close> header whose value is that string itself, with nothing prepended
  (no \<^verbatim>\<open>Bearer\<close> scheme); the Opik cell sends its \<^verbatim>\<open>AUTH_TOKEN\<close> the same way.
\<close>

theorem authorization_header_verbatim:
  "header (sent (post_metrics_to_TRACE_Metric_API M t u post)) ''Authorization'' = Some t
   \<and> header (sent (fetch_report_result rid t u get)) ''Authorization'' = Some t
   \<and> header (sent (opik_post_cell M post)) ''Authorization'' = Some AUTH_TOKEN"
  by (simp add: header_def sent_post sent_fetch sent_opik)

section \<open>Fetching a report\<close>

text \<open>
  Claim C2. For every report id, when the remote answers the \<^verbatim>\<open>GET\<close> with a status
  code other than 200, \<open>fetch_report_result\<close> raises nothing and returns \<^verbatim>\<open>None\<close>, after
  printing the status code.
\<close>

theorem fetch_non_200_returns_None:
  assumes "get (sent (fetch_report_result rid t u get)) = Inr r"
    and "status_code r \<noteq> 200"
  shows "returned (fetch_report_result rid t u get) = Inr JNull
    \<and> stdout (fetch_report_result rid t u get) =
        [[Str (''Failed to fetch report. Status code: '' @ str_int (status_code r))]]"
  using assms by (simp add: sent_fetch) (simp add: fetch_report_result_def Let_def)

theorem fetch_non_200_returns_None_witness:
  "returned (fetch_report_result ''report_id'' ''token'' ''user_id''
      (\<lambda>q. Inr \<lparr>status_code = 404, body_text = ''Not Found'',
                 json_result = Inl JSONDecodeError\<rparr>)) = Inr (JNull :: real json)
   \<and> stdout (fetch_report_result ''report_id'' ''token'' ''user_id''
      (\<lambda>q. Inr \<lparr>status_code = 404, body_text = ''Not Found'',
                 json_result = Inl JSONDecodeError\<rparr>))
     = [[Str ''Failed to fetch report. Status code: 404'' :: real printed]]"
  using fetch_non_200_returns_None [of "\<lambda>q. Inr \<lparr>status_code = 404, body_text = ''Not Found'',
                 json_result = Inl JSONDecodeError\<rparr>" "''report_id''" "''token''" "''user_id''"
      "\<lparr>status_code = 404, body_text = ''Not Found'', json_result = Inl JSONDecodeError :: py_error + real json\<rparr>"]
  by (simp add: str_int_def digits.simps)

text \<open>
  Claim C3. For every report id, when the remote answers the \<^verbatim>\<open>GET\<close> with status 200
  and a body that \<^verbatim>\<open>response.json()\<close> parses to \<open>B\<close>, \<open>fetch_report_result\<close> returns \<open>B\<close>
  itself, and prints nothing.
\<close>

theorem fetch_200_returns_parsed_body:
  assumes "get (sent (fetch_report_result rid t u get)) = Inr r"
    and "status_code r = 200"
    and "json_result r = Inr B"
  shows "returned (fetch_report_result rid t u get) = Inr B
    \<and> stdout (fetch_report_result rid t u get) = []"
  using assms by (simp add: sent_fetch) (simp add: fetch_report_result_def Let_def)

theorem fetch_200_returns_parsed_body_witness:
  "returned (fetch_report_result ''report_id'' ''token'' ''user_id''
      (\<lambda>q. Inr \<lparr>status_code = 200, body_text = ''{\"health_index\":67,\"stars\":3}'',
                 json_result = Inr (JDict [(''health_index'', JNum 67), (''stars'', JNum 3)])\<rparr>))
    = Inr (JDict [(''health_index'', JNum (67::real)), (''stars'', JNum 3)])"
  using fetch_200_returns_parsed_body [of "\<lambda>q. Inr \<lparr>status_code = 200, body_text = ''{\"health_index\":67,\"stars\":3}'',
                 json_result = Inr (JDict [(''health_index'', JNum (67::real)), (''stars'', JNum 3)])\<rparr>"
      "''report_id''" "''token''" "''user_id''"
      "\<lparr>status_code = 200, body_text = ''{\"health_index\":67,\"stars\":3}'',
                 json_result = Inr (JDict [(''health_index'', JNum (67::real)), (''stars'', JNum 3)])\<rparr>"]
  by simp

section \<open>Submitting metrics\<close>

text \<open>
  Claim C4, as the specification states it: for every HTTP response, the posting function
  returns to its caller the raw status code together with the parsed JSON body, or the raw
  text when the body is not JSON. In the code the value returned is the parsed body alone,
  and \<^verbatim>\<open>None\<close> when the body is not JSON: a 404 and a 500 with different texts yield
  the same returned value, although the specification's raw responses differ.
\<close>

theorem submit_return_omits_status_and_text:
  "spec_raw_response
      \<lparr>status_code = 404, body_text = ''Not Found'',
       json_result = Inl JSONDecodeError :: py_error + real json\<rparr>
     \<noteq> spec_raw_response
      \<lparr>status_code = 500, body_text = ''Internal Server Error'',
       json_result = Inl JSONDecodeError :: py_error + real json\<rparr>
   \<and> returned (post_metrics_to_TRACE_Metric_API (JDict []) ''token'' ''user_id''
        (\<lambda>q. Inr \<lparr>status_code = 404, body_text = ''Not Found'',
                   json_result = Inl JSONDecodeError\<rparr>))
     = Inr (JNull :: real json)
   \<and> returned (post_metrics_to_TRACE_Metric_API (JDict []) ''token'' ''user_id''
        (\<lambda>q. Inr \<lparr>status_code = 500, body_text = ''Internal Server Error'',
                   json_result = Inl JSONDecodeError\<rparr>))
     = Inr (JNull :: real json)"
  by (simp add: spec_raw_response_def post_metrics_to_TRACE_Metric_API_def Let_def)

text \<open>
  Claim C4, amended. For every HTTP response, \<open>post_metrics_to_TRACE_Metric_API\<close> prints
  the raw status code, then prints the parsed JSON body, or the raw response text when
  \<^verbatim>\<open>response.json()\<close> raises; it returns the parsed body, or \<^verbatim>\<open>None\<close> in the second
  case. The status code is never branched on: another status code on the same response
  gives the same returned value.
\<close>

theorem submit_prints_status_returns_body:
  assumes "post (sent (post_metrics_to_TRACE_Metric_API M t u post)) = Inr r"
  shows "stdout (post_metrics_to_TRACE_Metric_API M t u post) =
           [[Str (''Status Code: '' @ str_int (status_code r))],
            (case json_result r of
               Inr j \<Rightarrow> [Str ''Response JSON:'', Repr j]
             | Inl e \<Rightarrow> [Str ''Response Text:'', Str (body_text r)])]
       \<and> returned (post_metrics_to_TRACE_Metric_API M t u post) =
           Inr (case json_result r of Inr j \<Rightarrow> j | Inl e \<Rightarrow> JNull)
       \<and> returned (post_metrics_to_TRACE_Metric_API M t u (\<lambda>q. Inr (r\<lparr>status_code := c\<rparr>))) =
           returned (post_metrics_to_TRACE_Metric_API M t u post)"
  using assms by (simp add: sent_post)
    (simp add: post_metrics_to_TRACE_Metric_API_def Let_def split: sum.split)

theorem submit_prints_status_returns_body_witness:
  "stdout (post_metrics_to_TRACE_Metric_API (JDict []) ''token'' ''user_id''
      (\<lambda>q. Inr \<lparr>status_code = 502, body_text = ''Bad Gateway'',
                 json_result = Inl JSONDecodeError\<rparr>))
     = [[Str ''Status Code: 502''], [Str ''Response Text:'', Str ''Bad Gateway'' :: real printed]]
   \<and> returned (post_metrics_to_TRACE_Metric_API (JDict []) ''token'' ''user_id''
      (\<lambda>q. Inr \<lparr>status_code = 502, body_text = ''Bad Gateway'',
                 json_result = Inl JSONDecodeError\<rparr>))
     = Inr (JNull :: real json)"
  using submit_prints_status_returns_body
    [of "\<lambda>q. Inr \<lparr>status_code = 502, body_text = ''Bad Gateway'',
                    json_result = Inl JSONDecodeError\<rparr>"
        "JDict [] :: real json" "''token''" "''user_id''"
        "\<lparr>status_code = 502, body_text = ''Bad Gateway'',
          json_result = Inl JSONDecodeError :: py_error + real json\<rparr>"]
  by (simp add: str_int_def digits.simps)

text \<open>
  Claim C1, as the specification states it: for every metric mapping, provider, resource id
  and resource name, the body posted holds \<^verbatim>\<open>metric_data\<close> built from these four. The
  code takes the mapping only; asked for resource id \<^verbatim>\<open>res_777\<close>, resource name
  \<^verbatim>\<open>summarizer\<close> and provider \<^verbatim>\<open>ragas\<close>, neither notebook posts that document.
\<close>

theorem submit_payload_not_from_arguments:
  "payload_part (post_metrics_to_TRACE_Metric_API
        (JDict [(''Equals'', JNum (0::real)), (''Moderation'', JNum 0)]) ''token'' ''user_id''
        (\<lambda>q. Inl RequestException)) ''metric_data''
     \<noteq> Some (spec_metric_data ''res_777'' ''summarizer'' ''ragas''
               (JDict [(''Equals'', JNum 0), (''Moderation'', JNum 0)]))
   \<and> payload_part (opik_post_cell
        (JDict [(''Equals'', JNum (0::real)), (''Moderation'', JNum 0)])
        (\<lambda>q. Inl RequestException)) ''metric_data''
     \<noteq> Some (spec_metric_data ''res_777'' ''summarizer'' ''ragas''
               (JDict [(''Equals'', JNum 0), (''Moderation'', JNum 0)]))"
  by (simp add: payload_part_def sent_post sent_opik spec_metric_data_def)

text \<open>
  Claim C1, amended. For every metric-results value \<open>M\<close>, the body posted has exactly the
  shape of the specification, a \<^verbatim>\<open>metric_metadata\<close> object with the seven fields and a
  \<^verbatim>\<open>metric_data\<close> object with \<^verbatim>\<open>resource_id\<close>, \<^verbatim>\<open>resource_name\<close> and a third key
  that holds \<open>M\<close>, where the resource id, the resource name and the provider are constants
  of the client (\<^verbatim>\<open>res_123456\<close>, \<^verbatim>\<open>chat-completion\<close>, and \<^verbatim>\<open>deepeval\<close> or \<^verbatim>\<open>opik\<close>),
  and the third key is the provider stored in \<^verbatim>\<open>metric_metadata\<close>.
\<close>

theorem submit_payload_shape:
  "json_payload (sent (post_metrics_to_TRACE_Metric_API M t u post)) =
     Some (JDict
       [(''metric_metadata'', spec_metric_metadata
           \<lparr>md_application_name = ''chat-application'', md_version = ''1.0.0'',
            md_resource_name = ''chat-completion'', md_resource_id = ''R-756'',
            md_url = ''https://api.example.com/chat'', md_provider = ''deepeval'',
            md_use_case = ''transportation''\<rparr>),
        (''metric_data'',
           spec_metric_data ''res_123456'' ''chat-completion'' ''deepeval'' M)])
   \<and> json_payload (sent (opik_post_cell M post)) =
     Some (JDict
       [(''metric_metadata'', spec_metric_metadata
           \<lparr>md_application_name = ''chat-application'', md_version = ''1.0.0'',
            md_resource_name = ''chat-completion'', md_resource_id = ''R-756'',
            md_url = ''https://api.example.com/chat'', md_provider = ''opik'',
            md_use_case = ''transportation''\<rparr>),
        (''metric_data'',
           spec_metric_data ''res_123456'' ''chat-completion'' ''opik'' M)])"
  by (simp add: sent_post sent_opik spec_metric_metadata_def spec_metric_data_def)

text \<open>
  Claim C5, as the specification states it: the \<^verbatim>\<open>metric_metadata\<close> object posted equals
  the metadata record the caller supplies. The posting function has no such argument; for
  a record that differs from the constants of the client, the object posted is not the
  record.
\<close>

theorem submit_metadata_not_callers:
  "payload_part (post_metrics_to_TRACE_Metric_API (JDict [] :: real json) ''token'' ''user_id''
        (\<lambda>q. Inl RequestException)) ''metric_metadata''
     \<noteq> Some (spec_metric_metadata
           \<lparr>md_application_name = ''support-bot'', md_version = ''2.3.0'',
            md_resource_name = ''summarizer'', md_resource_id = ''R-1'',
            md_url = ''https://example.org/summarize'', md_provider = ''deepeval'',
            md_use_case = ''healthcare''\<rparr>)"
  by (simp add: payload_part_def sent_post spec_metric_metadata_def)

text \<open>
  Claim C5, amended. The seven fields of the \<^verbatim>\<open>metric_metadata\<close> object posted are fixed
  inside the client: whatever the arguments and the network do, the object is the same
  (with provider \<^verbatim>\<open>deepeval\<close> in the DeepEval function and \<^verbatim>\<open>opik\<close> in the Opik cell).
\<close>

theorem submit_metadata_fixed:
  "payload_part (post_metrics_to_TRACE_Metric_API M t u post) ''metric_metadata'' =
     Some (JDict
       [(''application_name'', JStr ''chat-application''),
        (''version'', JStr ''1.0.0''),
        (''resource_name'', JStr ''chat-completion''),
        (''resource_id'', JStr ''R-756''),
        (''url'', JStr ''https://api.example.com/chat''),
        (''provider'', JStr ''deepeval''),
        (''use_case'', JStr ''transportation'')])
   \<and> payload_part (opik_post_cell M post) ''metric_metadata'' =
     Some (JDict
       [(''application_name'', JStr ''chat-application''),
        (''version'', JStr ''1.0.0''),
        (''resource_name'', JStr ''chat-completion''),
        (''resource_id'', JStr ''R-756''),
        (''url'', JStr ''https://api.example.com/chat''),
        (''provider'', JStr ''opik''),
        (''use_case'', JStr ''transportation'')])
   \<and> payload_part (post_metrics_to_TRACE_Metric_API M' t' u' post') ''metric_metadata'' =
       payload_part (post_metrics_to_TRACE_Metric_API M t u post) ''metric_metadata''"
  by (simp add: payload_part_def sent_post sent_opik)

section \<open>Collecting scores\<close>

lemma opik_loop_filter:
  "opik_loop ms out ref d = deepeval_loop (filter opik_scored ms) (out, ref) d"
  by (induction ms arbitrary: d) (auto simp: opik_scored_def split: sum.splits prod.splits)

lemma deepeval_loop_ok:
  "\<forall>m\<in>set ms. \<not> isl (evaluate m tc) \<Longrightarrow>
     deepeval_loop ms tc d = (ms, Inr (foldl (record_score tc) d ms))"
proof (induction ms arbitrary: d)
  case Nil
  show ?case by simp
next
  case (Cons m ms)
  from Cons.prems obtain v where v: "evaluate m tc = Inr v"
    by (cases "evaluate m tc") auto
  from Cons.prems have "\<forall>x\<in>set ms. \<not> isl (evaluate x tc)" by simp
  from Cons.IH [OF this] v show ?case by (simp add: record_score_def)
qed

lemma deepeval_loop_Inr:
  "deepeval_loop ms tc d = (calls, Inr d') \<Longrightarrow>
     calls = ms \<and> (\<forall>m\<in>set ms. \<not> isl (evaluate m tc)) \<and> d' = foldl (record_score tc) d ms"
proof (induction ms arbitrary: d calls)
  case Nil
  then show ?case by simp
next
  case (Cons m ms)
  then show ?case
    by (auto simp: record_score_def split: sum.splits prod.splits)
qed

lemma keys_foldl_record:
  "fst ` set (foldl (record_score tc) d ms) = fst ` set d \<union> class_name ` set ms"
  by (induction ms arbitrary: d) (auto simp: record_score_def dom_update)

lemma distinct_foldl_record:
  "distinct (map fst d) \<Longrightarrow> distinct (map fst (foldl (record_score tc) d ms))"
  by (induction ms arbitrary: d) (simp_all add: record_score_def distinct_update)

lemma map_of_foldl_record_other:
  "k \<notin> class_name ` set ms \<Longrightarrow> map_of (foldl (record_score tc) d ms) k = map_of d k"
  by (induction ms arbitrary: d) (auto simp: record_score_def update_conv')

lemma map_of_foldl_record_last:
  assumes "class_name m \<notin> class_name ` set post"
  shows "map_of (foldl (record_score tc) d (pre @ m # post)) (class_name m)
           = Some (projr (evaluate m tc))"
  using assms by (simp add: map_of_foldl_record_other) (simp add: record_score_def update_conv')

lemma deepeval_loop_keys:
  assumes "deepeval_loop xs i [] = (calls, Inr d)"
  shows "fst ` set d = class_name ` set calls \<and> distinct (map fst d)
       \<and> length d = card (class_name ` set calls)"
proof -
  from deepeval_loop_Inr [OF assms]
  have c: "calls = xs" and d: "d = foldl (record_score i) [] xs" by simp_all
  have k: "fst ` set d = class_name ` set calls"
    unfolding d c by (simp add: keys_foldl_record)
  have di: "distinct (map fst d)"
    unfolding d by (rule distinct_foldl_record) simp
  have "length d = length (map fst d)" by simp
  also have "\<dots> = card (set (map fst d))" using di by (simp only: distinct_card)
  also have "\<dots> = card (class_name ` set calls)" using k by simp
  finally show ?thesis using k di by simp
qed

text \<open>
  Claim C7, as the specification states it: every metric of the sequence is called once
  and none is skipped. The Opik loop passes over a metric that is neither an \<^verbatim>\<open>Equals\<close>
  nor a \<^verbatim>\<open>Moderation\<close>, and in either loop a metric that raises ends the run before the
  metrics after it are called.
\<close>

theorem collector_leaves_metrics_uncalled:
  "map class_name (fst (opik_collect
      [\<lparr>class_name = ''Equals'', instance_of = [''Equals'', ''BaseMetric'', ''object''],
         evaluate = (\<lambda>i. Inr (0::real))\<rparr>,
       \<lparr>class_name = ''GEval'', instance_of = [''GEval'', ''BaseMetric'', ''object''],
         evaluate = (\<lambda>i. Inr 0.5)\<rparr>,
       \<lparr>class_name = ''Moderation'', instance_of = [''Moderation'', ''BaseMetric'', ''object''],
         evaluate = (\<lambda>i. Inr 0)\<rparr>]
      ''Paris is the capital of France.'' ''Paris is the capital of France.''))
     = [''Equals'', ''Moderation'']
   \<and> snd (opik_collect
      [\<lparr>class_name = ''Equals'', instance_of = [''Equals'', ''BaseMetric'', ''object''],
         evaluate = (\<lambda>i. Inr (0::real))\<rparr>,
       \<lparr>class_name = ''GEval'', instance_of = [''GEval'', ''BaseMetric'', ''object''],
         evaluate = (\<lambda>i. Inr 0.5)\<rparr>,
       \<lparr>class_name = ''Moderation'', instance_of = [''Moderation'', ''BaseMetric'', ''object''],
         evaluate = (\<lambda>i. Inr 0)\<rparr>]
      ''Paris is the capital of France.'' ''Paris is the capital of France.'')
     = Inr [(''Equals'', 0), (''Moderation'', 0)]
   \<and> map class_name (fst (deepeval_collect
      [\<lparr>class_name = ''ContextualRecallMetric'', instance_of = [''ContextualRecallMetric''],
         evaluate = (\<lambda>i::unit. Inl MetricError :: py_error + real)\<rparr>,
       \<lparr>class_name = ''HallucinationMetric'', instance_of = [''HallucinationMetric''],
         evaluate = (\<lambda>i. Inr 0)\<rparr>] ()))
     = [''ContextualRecallMetric'']
   \<and> snd (deepeval_collect
      [\<lparr>class_name = ''ContextualRecallMetric'', instance_of = [''ContextualRecallMetric''],
         evaluate = (\<lambda>i::unit. Inl MetricError :: py_error + real)\<rparr>,
       \<lparr>class_name = ''HallucinationMetric'', instance_of = [''HallucinationMetric''],
         evaluate = (\<lambda>i. Inr 0)\<rparr>] ())
     = Inl MetricError"
  by (simp add: opik_collect_def deepeval_collect_def isinstance_def)

text \<open>
  Claim C7, amended. When no metric that is scored raises, the DeepEval loop calls every
  metric of the sequence exactly once, in order, and writes each score under the class
  name of its metric; the Opik loop does the same for the metrics that are instances of
  \<^verbatim>\<open>Equals\<close> or \<^verbatim>\<open>Moderation\<close>, and passes over the others.
\<close>

theorem collector_calls_each_scored_metric_once:
  assumes "\<forall>m\<in>set ms. \<not> isl (evaluate m tc)"
    and "\<forall>m\<in>set os. opik_scored m \<longrightarrow> \<not> isl (evaluate m (out, ref))"
  shows "deepeval_collect ms tc = (ms, Inr (foldl (record_score tc) [] ms))
     \<and> opik_collect os out ref =
         (filter opik_scored os,
          Inr (foldl (record_score (out, ref)) [] (filter opik_scored os)))"
proof -
  have "\<forall>m\<in>set (filter opik_scored os). \<not> isl (evaluate m (out, ref))"
    using assms(2) by simp
  then have "opik_collect os out ref =
         (filter opik_scored os,
          Inr (foldl (record_score (out, ref)) [] (filter opik_scored os)))"
    unfolding opik_collect_def opik_loop_filter by (rule deepeval_loop_ok)
  moreover have "deepeval_collect ms tc = (ms, Inr (foldl (record_score tc) [] ms))"
    unfolding deepeval_collect_def using assms(1) by (rule deepeval_loop_ok)
  ultimately show ?thesis by simp
qed

theorem collector_calls_each_scored_metric_once_witness:
  "map class_name (fst (deepeval_collect
      [\<lparr>class_name = ''AnswerRelevancyMetric'', instance_of = [''AnswerRelevancyMetric''],
         evaluate = (\<lambda>i::unit. Inr (1::real))\<rparr>,
       \<lparr>class_name = ''HallucinationMetric'', instance_of = [''HallucinationMetric''],
         evaluate = (\<lambda>i. Inr 0)\<rparr>] ()))
     = [''AnswerRelevancyMetric'', ''HallucinationMetric'']
   \<and> snd (deepeval_collect
      [\<lparr>class_name = ''AnswerRelevancyMetric'', instance_of = [''AnswerRelevancyMetric''],
         evaluate = (\<lambda>i::unit. Inr (1::real))\<rparr>,
       \<lparr>class_name = ''HallucinationMetric'', instance_of = [''HallucinationMetric''],
         evaluate = (\<lambda>i. Inr 0)\<rparr>] ())
     = Inr [(''AnswerRelevancyMetric'', 1), (''HallucinationMetric'', 0)]
   \<and> map class_name (fst (opik_collect
      [\<lparr>class_name = ''Equals'', instance_of = [''Equals'', ''BaseMetric''],
         evaluate = (\<lambda>i. Inr (0::real))\<rparr>,
       \<lparr>class_name = ''GEval'', instance_of = [''GEval'', ''BaseMetric''],
         evaluate = (\<lambda>i. Inl MetricError)\<rparr>] ''a'' ''b''))
     = [''Equals'']
   \<and> snd (opik_collect
      [\<lparr>class_name = ''Equals'', instance_of = [''Equals'', ''BaseMetric''],
         evaluate = (\<lambda>i. Inr (0::real))\<rparr>,
       \<lparr>class_name = ''GEval'', instance_of = [''GEval'', ''BaseMetric''],
         evaluate = (\<lambda>i. Inl MetricError)\<rparr>] ''a'' ''b'')
     = Inr [(''Equals'', 0)]"
  using collector_calls_each_scored_metric_once
    [of "[\<lparr>class_name = ''AnswerRelevancyMetric'', instance_of = [''AnswerRelevancyMetric''],
            evaluate = (\<lambda>i::unit. Inr (1::real))\<rparr>,
          \<lparr>class_name = ''HallucinationMetric'', instance_of = [''HallucinationMetric''],
            evaluate = (\<lambda>i. Inr 0)\<rparr>]" "()"
        "[\<lparr>class_name = ''Equals'', instance_of = [''Equals'', ''BaseMetric''],
            evaluate = (\<lambda>i. Inr (0::real))\<rparr>,
          \<lparr>class_name = ''GEval'', instance_of = [''GEval'', ''BaseMetric''],
            evaluate = (\<lambda>i. Inl MetricError)\<rparr>]" "''a''" "''b''"]
  by (simp add: opik_scored_def isinstance_def record_score_def)

text \<open>
  Claim C8. When a run of the collector ends with a mapping, the value under the name of
  a metric is the score of the last scored metric of the sequence with that name: of two
  metrics with one name the later wins, and a name that occurs once keeps the score of its
  only metric.
\<close>

theorem collector_last_write_wins:
  assumes "deepeval_collect (pre @ m # post) tc = (calls, Inr d)"
    and "class_name m \<notin> class_name ` set post"
    and "opik_collect (pre' @ m' # post') out ref = (calls', Inr d')"
    and "opik_scored m'"
    and "class_name m' \<notin> class_name ` set (filter opik_scored post')"
  shows "(\<exists>v. evaluate m tc = Inr v \<and> map_of d (class_name m) = Some v)
     \<and> (\<exists>v. evaluate m' (out, ref) = Inr v \<and> map_of d' (class_name m') = Some v)"
proof -
  from assms(1) have ok: "\<not> isl (evaluate m tc)"
    and d: "d = foldl (record_score tc) [] (pre @ m # post)"
    using deepeval_loop_Inr [of "pre @ m # post" tc "[]" calls d]
    by (simp_all add: deepeval_collect_def)
  from ok obtain v where v: "evaluate m tc = Inr v"
    by (cases "evaluate m tc") auto
  have "map_of d (class_name m) = Some v"
    unfolding d using map_of_foldl_record_last [OF assms(2), of tc "[]" pre] v by simp
  with v have A: "\<exists>v. evaluate m tc = Inr v \<and> map_of d (class_name m) = Some v"
    by blast
  let ?ms = "filter opik_scored pre' @ m' # filter opik_scored post'"
  from assms(4) have fl: "filter opik_scored (pre' @ m' # post') = ?ms" by simp
  from assms(3) have "deepeval_loop ?ms (out, ref) [] = (calls', Inr d')"
    by (simp only: opik_collect_def opik_loop_filter fl)
  from deepeval_loop_Inr [OF this]
  have ok': "\<not> isl (evaluate m' (out, ref))"
    and d': "d' = foldl (record_score (out, ref)) [] ?ms"
    by simp_all
  from ok' obtain w where w: "evaluate m' (out, ref) = Inr w"
    by (cases "evaluate m' (out, ref)") auto
  have "map_of d' (class_name m') = Some w"
    unfolding d'
    using map_of_foldl_record_last [OF assms(5), of "(out, ref)" "[]" "filter opik_scored pre'"] w
    by simp
  with w have B: "\<exists>v. evaluate m' (out, ref) = Inr v \<and> map_of d' (class_name m') = Some v"
    by blast
  from A B show ?thesis by blast
qed

theorem collector_last_write_wins_witness:
  "deepeval_collect
      [\<lparr>class_name = ''FaithfulnessMetric'', instance_of = [''FaithfulnessMetric''],
         evaluate = (\<lambda>i::unit. Inr (0.25::real))\<rparr>,
       \<lparr>class_name = ''HallucinationMetric'', instance_of = [''HallucinationMetric''],
         evaluate = (\<lambda>i. Inr 0)\<rparr>,
       \<lparr>class_name = ''FaithfulnessMetric'', instance_of = [''FaithfulnessMetric''],
         evaluate = (\<lambda>i. Inr 1)\<rparr>] ()
     = ([\<lparr>class_name = ''FaithfulnessMetric'', instance_of = [''FaithfulnessMetric''],
         evaluate = (\<lambda>i::unit. Inr (0.25::real))\<rparr>,
       \<lparr>class_name = ''HallucinationMetric'', instance_of = [''HallucinationMetric''],
         evaluate = (\<lambda>i. Inr 0)\<rparr>,
       \<lparr>class_name = ''FaithfulnessMetric'', instance_of = [''FaithfulnessMetric''],
         evaluate = (\<lambda>i. Inr 1)\<rparr>],
        Inr [(''FaithfulnessMetric'', 1), (''HallucinationMetric'', 0)])
   \<and> map_of [(''FaithfulnessMetric'', 1::real), (''HallucinationMetric'', 0)]
        ''FaithfulnessMetric'' = Some 1
   \<and> snd (opik_collect
      [\<lparr>class_name = ''Equals'', instance_of = [''Equals'', ''BaseMetric''],
         evaluate = (\<lambda>i. Inr (0::real))\<rparr>,
       \<lparr>class_name = ''Equals'', instance_of = [''Equals'', ''BaseMetric''],
         evaluate = (\<lambda>i. Inr 1)\<rparr>,
       \<lparr>class_name = ''Moderation'', instance_of = [''Moderation'', ''BaseMetric''],
         evaluate = (\<lambda>i. Inr 0.5)\<rparr>] ''a'' ''b'')
     = Inr [(''Equals'', 1), (''Moderation'', 0.5)]
   \<and> map_of [(''Equals'', 1::real), (''Moderation'', 0.5)] ''Equals'' = Some 1"
  using collector_last_write_wins
    [of "[\<lparr>class_name = ''FaithfulnessMetric'', instance_of = [''FaithfulnessMetric''],
            evaluate = (\<lambda>i::unit. Inr (0.25::real))\<rparr>,
          \<lparr>class_name = ''HallucinationMetric'', instance_of = [''HallucinationMetric''],
            evaluate = (\<lambda>i. Inr 0)\<rparr>]"
        "\<lparr>class_name = ''FaithfulnessMetric'', instance_of = [''FaithfulnessMetric''],
            evaluate = (\<lambda>i. Inr 1)\<rparr>"
        "[]" "()"
        "[\<lparr>class_name = ''FaithfulnessMetric'', instance_of = [''FaithfulnessMetric''],
            evaluate = (\<lambda>i::unit. Inr (0.25::real))\<rparr>,
          \<lparr>class_name = ''HallucinationMetric'', instance_of = [''HallucinationMetric''],
            evaluate = (\<lambda>i. Inr 0)\<rparr>,
          \<lparr>class_name = ''FaithfulnessMetric'', instance_of = [''FaithfulnessMetric''],
            evaluate = (\<lambda>i. Inr 1)\<rparr>]"
        "[(''FaithfulnessMetric'', 1), (''HallucinationMetric'', 0)]"
        "[\<lparr>class_name = ''Equals'', instance_of = [''Equals'', ''BaseMetric''],
            evaluate = (\<lambda>i. Inr (0::real))\<rparr>]"
        "\<lparr>class_name = ''Equals'', instance_of = [''Equals'', ''BaseMetric''],
            evaluate = (\<lambda>i. Inr 1)\<rparr>"
        "[\<lparr>class_name = ''Moderation'', instance_of = [''Moderation'', ''BaseMetric''],
            evaluate = (\<lambda>i. Inr 0.5)\<rparr>]"
        "''a''" "''b''"
        "[\<lparr>class_name = ''Equals'', instance_of = [''Equals'', ''BaseMetric''],
            evaluate = (\<lambda>i. Inr (0::real))\<rparr>,
          \<lparr>class_name = ''Equals'', instance_of = [''Equals'', ''BaseMetric''],
            evaluate = (\<lambda>i. Inr 1)\<rparr>,
          \<lparr>class_name = ''Moderation'', instance_of = [''Moderation'', ''BaseMetric''],
            evaluate = (\<lambda>i. Inr 0.5)\<rparr>]"
        "[(''Equals'', 1), (''Moderation'', 0.5)]"]
  by (simp add: deepeval_collect_def opik_collect_def opik_scored_def isinstance_def)

text \<open>
  Claim C10. When a run of the collector ends with a mapping, its keys are exactly the
  class names of the metrics that were scored, each key once: the mapping has as many
  entries as there are distinct class names, so two scored metrics of one class share one
  entry.
\<close>

theorem collector_keys_are_class_names:
  assumes "deepeval_collect ms tc = (calls, Inr d)"
    and "opik_collect os out ref = (calls', Inr d')"
  shows "calls = ms \<and> fst ` set d = class_name ` set calls \<and> distinct (map fst d)
       \<and> length d = card (class_name ` set calls)
     \<and> calls' = filter opik_scored os \<and> fst ` set d' = class_name ` set calls'
       \<and> distinct (map fst d') \<and> length d' = card (class_name ` set calls')"
proof -
  from assms(1) have 1: "deepeval_loop ms tc [] = (calls, Inr d)"
    by (simp add: deepeval_collect_def)
  from assms(2) have 2: "deepeval_loop (filter opik_scored os) (out, ref) [] = (calls', Inr d')"
    by (simp add: opik_collect_def opik_loop_filter)
  from deepeval_loop_Inr [OF 1] deepeval_loop_Inr [OF 2]
    deepeval_loop_keys [OF 1] deepeval_loop_keys [OF 2]
  show ?thesis by simp
qed

theorem collector_keys_are_class_names_witness:
  "snd (deepeval_collect
      [\<lparr>class_name = ''FaithfulnessMetric'', instance_of = [''FaithfulnessMetric''],
         evaluate = (\<lambda>i::unit. Inr (0.25::real))\<rparr>,
       \<lparr>class_name = ''FaithfulnessMetric'', instance_of = [''FaithfulnessMetric''],
         evaluate = (\<lambda>i. Inr 1)\<rparr>] ())
     = Inr [(''FaithfulnessMetric'', 1)]
   \<and> fst ` set [(''FaithfulnessMetric'', 1::real)] = {''FaithfulnessMetric''}
   \<and> card (class_name ` set
      [\<lparr>class_name = ''FaithfulnessMetric'', instance_of = [''FaithfulnessMetric''],
         evaluate = (\<lambda>i::unit. Inr (0.25::real))\<rparr>,
       \<lparr>class_name = ''FaithfulnessMetric'', instance_of = [''FaithfulnessMetric''],
         evaluate = (\<lambda>i. Inr 1)\<rparr>]) = 1
   \<and> snd (opik_collect
      [\<lparr>class_name = ''Equals'', instance_of = [''Equals'', ''BaseMetric''],
         evaluate = (\<lambda>i. Inr (0::real))\<rparr>,
       \<lparr>class_name = ''GEval'', instance_of = [''GEval'', ''BaseMetric''],
         evaluate = (\<lambda>i. Inr 0.5)\<rparr>,
       \<lparr>class_name = ''Equals'', instance_of = [''Equals'', ''BaseMetric''],
         evaluate = (\<lambda>i. Inr 1)\<rparr>] ''a'' ''b'')
     = Inr [(''Equals'', 1)]"
  using collector_keys_are_class_names
    [of "[\<lparr>class_name = ''FaithfulnessMetric'', instance_of = [''FaithfulnessMetric''],
            evaluate = (\<lambda>i::unit. Inr (0.25::real))\<rparr>,
          \<lparr>class_name = ''FaithfulnessMetric'', instance_of = [''FaithfulnessMetric''],
            evaluate = (\<lambda>i. Inr 1)\<rparr>]" "()"
        "[\<lparr>class_name = ''FaithfulnessMetric'', instance_of = [''FaithfulnessMetric''],
            evaluate = (\<lambda>i::unit. Inr (0.25::real))\<rparr>,
          \<lparr>class_name = ''FaithfulnessMetric'', instance_of = [''FaithfulnessMetric''],
            evaluate = (\<lambda>i. Inr 1)\<rparr>]"
        "[(''FaithfulnessMetric'', 1)]"
        "[\<lparr>class_name = ''Equals'', instance_of = [''Equals'', ''BaseMetric''],
            evaluate = (\<lambda>i. Inr (0::real))\<rparr>,
          \<lparr>class_name = ''GEval'', instance_of = [''GEval'', ''BaseMetric''],
            evaluate = (\<lambda>i. Inr 0.5)\<rparr>,
          \<lparr>class_name = ''Equals'', instance_of = [''Equals'', ''BaseMetric''],
            evaluate = (\<lambda>i. Inr 1)\<rparr>]" "''a''" "''b''"
        "[\<lparr>class_name = ''Equals'', instance_of = [''Equals'', ''BaseMetric''],
            evaluate = (\<lambda>i. Inr (0::real))\<rparr>,
          \<lparr>class_name = ''Equals'', instance_of = [''Equals'', ''BaseMetric''],
            evaluate = (\<lambda>i. Inr 1)\<rparr>]"
        "[(''Equals'', 1)]"]
  by (simp add: deepeval_collect_def opik_collect_def opik_scored_def isinstance_def)

section \<open>The payload after serialisation and parsing\<close>




end
